theory Spec2Isabelle
  imports Complex_Main
begin

section \<open>Values and exceptions of the two scripts\<close>

text \<open>
  The repository holds two Python scripts, \<^verbatim>\<open>claude3-cli.py\<close> (the generic variant) and
  \<^verbatim>\<open>llm-review-claude3.py\<close> (the review variant). The values they handle are what
  \<^verbatim>\<open>json.loads\<close> / \<^verbatim>\<open>json.load\<close> return and what \<^verbatim>\<open>json.dumps\<close> accepts: \<^verbatim>\<open>None\<close>, booleans,
  integers, floats, strings, lists and dictionaries with string keys. A dictionary is an
  association list in insertion order, looked up with \<open>map_of\<close>.
\<close>

datatype json =
    JNull
  | JBool bool
  | JInt int
  | JFloat real
  | JStr string
  | JArr "json list"
  | JObj "(string \<times> json) list"

text \<open>The exceptions that the modelled statements can raise.\<close>

datatype error =
    KeyError string
  | TypeError
  | JSONDecodeError
  | UnicodeDecodeError
  | PermissionError
  | IsADirectoryError
  | FileNotFoundError
  | ClientError json
  | OtherError string

text \<open>
  \<^verbatim>\<open>v[k]\<close> for a string key \<open>k\<close>: a dictionary gives the value or raises \<^verbatim>\<open>KeyError\<close>; a list,
  a string, a number, a boolean and \<^verbatim>\<open>None\<close> raise \<^verbatim>\<open>TypeError\<close>.
\<close>

fun subscript :: "json \<Rightarrow> string \<Rightarrow> error + json" where
  "subscript (JObj kvs) k = (case map_of kvs k of None \<Rightarrow> Inl (KeyError k) | Some v \<Rightarrow> Inr v)"
| "subscript JNull k = Inl TypeError"
| "subscript (JBool b) k = Inl TypeError"
| "subscript (JInt i) k = Inl TypeError"
| "subscript (JFloat x) k = Inl TypeError"
| "subscript (JStr s) k = Inl TypeError"
| "subscript (JArr vs) k = Inl TypeError"

text \<open>\<^verbatim>\<open>v[a][b]\<close>, evaluated left to right.\<close>

definition subscript2 :: "json \<Rightarrow> string \<Rightarrow> string \<Rightarrow> error + json" where
  "subscript2 v a b = (case subscript v a of Inl e \<Rightarrow> Inl e | Inr d \<Rightarrow> subscript d b)"

text \<open>\<^verbatim>\<open>result += x\<close> where \<open>result\<close> is a \<^verbatim>\<open>str\<close>: only a \<^verbatim>\<open>str\<close> can be appended.\<close>

fun str_iadd :: "string \<Rightarrow> json \<Rightarrow> error + string" where
  "str_iadd s (JStr t) = Inr (s @ t)"
| "str_iadd s JNull = Inl TypeError"
| "str_iadd s (JBool b) = Inl TypeError"
| "str_iadd s (JInt i) = Inl TypeError"
| "str_iadd s (JFloat x) = Inl TypeError"
| "str_iadd s (JArr vs) = Inl TypeError"
| "str_iadd s (JObj kvs) = Inl TypeError"

section \<open>The streaming response client: \<^verbatim>\<open>generate_message\<close>\<close>

text \<open>
  One item of the iteration \<^verbatim>\<open>for event in response.get("body")\<close>: either the iterator
  yields an event whose bytes \<^verbatim>\<open>json.loads\<close> decodes to a value (\<open>Payload\<close>), or it yields an
  event whose bytes are not JSON (\<open>Garbage\<close>, \<^verbatim>\<open>json.loads\<close> raises), or the iterator itself
  raises (\<open>Broken\<close>).
\<close>

datatype event = Payload json | Garbage | Broken error

type_synonym status = "(string \<times> json) list"

text \<open>
  The body of the loop, on the local variables \<open>(result, status)\<close>. The function is the
  same text in both scripts (\<^verbatim>\<open>claude3-cli.py\<close> lines 82-93, \<^verbatim>\<open>llm-review-claude3.py\<close>
  lines 63-74).
\<close>

definition message_delta_status :: "json \<Rightarrow> error + status" where
  "message_delta_status chunk =
    (case subscript2 chunk ''delta'' ''stop_reason'' of Inl e \<Rightarrow> Inl e | Inr sr \<Rightarrow>
      (case subscript2 chunk ''delta'' ''stop_sequence'' of Inl e \<Rightarrow> Inl e | Inr ss \<Rightarrow>
        (case subscript2 chunk ''usage'' ''output_tokens'' of Inl e \<Rightarrow> Inl e | Inr ot \<Rightarrow>
          Inr [(''stop_reason'', sr), (''stop_sequence'', ss), (''output_tokens'', ot)])))"

definition on_chunk :: "string \<times> status \<Rightarrow> json \<Rightarrow> error + (string \<times> status)" where
  "on_chunk acc chunk =
    (case subscript chunk ''type'' of Inl e \<Rightarrow> Inl e | Inr ty \<Rightarrow>
      (case (if ty = JStr ''message_delta'' then message_delta_status chunk else Inr (snd acc)) of
         Inl e \<Rightarrow> Inl e
       | Inr status \<Rightarrow>
          (case subscript chunk ''type'' of Inl e \<Rightarrow> Inl e | Inr ty2 \<Rightarrow>
            (if ty2 = JStr ''content_block_delta'' then
               (case subscript2 chunk ''delta'' ''type'' of Inl e \<Rightarrow> Inl e | Inr dty \<Rightarrow>
                 (if dty = JStr ''text_delta'' then
                    (case subscript2 chunk ''delta'' ''text'' of Inl e \<Rightarrow> Inl e | Inr t \<Rightarrow>
                      (case str_iadd (fst acc) t of
                         Inl e \<Rightarrow> Inl e
                       | Inr result \<Rightarrow> Inr (result, status)))
                  else Inr (fst acc, status)))
             else Inr (fst acc, status)))))"

fun on_event :: "string \<times> status \<Rightarrow> event \<Rightarrow> error + (string \<times> status)" where
  "on_event acc (Payload chunk) = on_chunk acc chunk"
| "on_event acc Garbage = Inl JSONDecodeError"
| "on_event acc (Broken e) = Inl e"

fun consume :: "string \<times> status \<Rightarrow> event list \<Rightarrow> error + (string \<times> status)" where
  "consume acc [] = Inr acc"
| "consume acc (ev # evs) =
    (case on_event acc ev of Inl e \<Rightarrow> Inl e | Inr acc' \<Rightarrow> consume acc' evs)"

text \<open>
  The request body handed to \<^verbatim>\<open>json.dumps\<close> and the call itself. The Bedrock client is the
  function \<open>invoke\<close>, from the body and the model id to the stream or to the exception
  \<^verbatim>\<open>invoke_model_with_response_stream\<close> raises.
\<close>

definition request_body :: "json \<Rightarrow> json \<Rightarrow> int \<Rightarrow> json" where
  "request_body system_prompt messages max_tokens = JObj
    [(''anthropic_version'', JStr ''bedrock-2023-05-31''),
     (''max_tokens'', JInt max_tokens),
     (''temperature'', JInt 1),
     (''top_p'', JFloat (999 / 1000)),
     (''system'', system_prompt),
     (''messages'', messages)]"

type_synonym bedrock = "json \<Rightarrow> string \<Rightarrow> error + event list"

definition generate_message ::
  "bedrock \<Rightarrow> string \<Rightarrow> json \<Rightarrow> json \<Rightarrow> int \<Rightarrow> error + (string \<times> status)" where
  "generate_message bedrock_runtime model_id system_prompt messages max_tokens =
    (case bedrock_runtime (request_body system_prompt messages max_tokens) model_id of
       Inl e \<Rightarrow> Inl e
     | Inr events \<Rightarrow> consume ([], []) events)"

subsection \<open>The chunk shapes the specification names\<close>

definition is_text_delta :: "event \<Rightarrow> bool" where
  "is_text_delta ev = (case ev of
      Payload chunk \<Rightarrow> subscript chunk ''type'' = Inr (JStr ''content_block_delta'')
                      \<and> subscript2 chunk ''delta'' ''type'' = Inr (JStr ''text_delta'')
    | Garbage \<Rightarrow> False
    | Broken e \<Rightarrow> False)"

definition delta_text :: "event \<Rightarrow> string" where
  "delta_text ev = (case ev of
      Payload chunk \<Rightarrow> (case subscript2 chunk ''delta'' ''text'' of Inr (JStr t) \<Rightarrow> t | _ \<Rightarrow> [])
    | Garbage \<Rightarrow> []
    | Broken e \<Rightarrow> [])"

definition is_message_delta :: "event \<Rightarrow> bool" where
  "is_message_delta ev = (case ev of
      Payload chunk \<Rightarrow> subscript chunk ''type'' = Inr (JStr ''message_delta'')
    | Garbage \<Rightarrow> False
    | Broken e \<Rightarrow> False)"

definition delta_status :: "event \<Rightarrow> status" where
  "delta_status ev = (case ev of
      Payload chunk \<Rightarrow> (case message_delta_status chunk of Inr st \<Rightarrow> st | Inl e \<Rightarrow> [])
    | Garbage \<Rightarrow> []
    | Broken e \<Rightarrow> [])"

definition has_text :: "event \<Rightarrow> bool" where
  "has_text ev = (case ev of
      Payload chunk \<Rightarrow>
        (case subscript2 chunk ''delta'' ''text'' of Inr (JStr t) \<Rightarrow> True | _ \<Rightarrow> False)
    | Garbage \<Rightarrow> False
    | Broken e \<Rightarrow> False)"

definition has_status :: "event \<Rightarrow> bool" where
  "has_status ev = (case ev of
      Payload chunk \<Rightarrow> (case message_delta_status chunk of Inr st \<Rightarrow> True | Inl e \<Rightarrow> False)
    | Garbage \<Rightarrow> False
    | Broken e \<Rightarrow> False)"

text \<open>
  The two shapes the loop acts on, with the fields it reads present: a text delta whose
  text is a string, and a message delta with its three fields.
\<close>

definition recognized :: "event \<Rightarrow> bool" where
  "recognized ev =
     ((is_text_delta ev \<and> has_text ev) \<or> (is_message_delta ev \<and> has_status ev))"

text \<open>
  A chunk with a type discriminant that is neither \<^verbatim>\<open>message_delta\<close> nor
  \<^verbatim>\<open>content_block_delta\<close>, or a \<^verbatim>\<open>content_block_delta\<close> whose \<^verbatim>\<open>delta.type\<close> is there and
  is not \<^verbatim>\<open>text_delta\<close>.
\<close>

definition ignored :: "event \<Rightarrow> bool" where
  "ignored ev = (case ev of
      Payload chunk \<Rightarrow>
        (case subscript chunk ''type'' of
           Inl e \<Rightarrow> False
         | Inr ty \<Rightarrow>
            (if ty = JStr ''message_delta'' then False
             else if ty = JStr ''content_block_delta'' then
               (case subscript2 chunk ''delta'' ''type'' of
                  Inl e \<Rightarrow> False
                | Inr dty \<Rightarrow> dty \<noteq> JStr ''text_delta'')
             else True))
    | Garbage \<Rightarrow> False
    | Broken e \<Rightarrow> False)"

definition well_formed :: "event \<Rightarrow> bool" where
  "well_formed ev = (recognized ev \<or> ignored ev)"

text \<open>The text fragments of a stream, in order, and the status its last message delta gives.\<close>

definition texts :: "event list \<Rightarrow> string" where
  "texts evs = concat (map delta_text (filter is_text_delta evs))"

definition final_status :: "status \<Rightarrow> event list \<Rightarrow> status" where
  "final_status s evs =
     (case filter is_message_delta evs of [] \<Rightarrow> s | m # ms \<Rightarrow> delta_status (last (m # ms)))"

subsection \<open>Streams used as examples\<close>

definition text_chunk :: "string \<Rightarrow> event" where
  "text_chunk t = Payload (JObj
     [(''type'', JStr ''content_block_delta''),
      (''index'', JInt 0),
      (''delta'', JObj [(''type'', JStr ''text_delta''), (''text'', JStr t)])])"

definition stop_chunk :: "json \<Rightarrow> json \<Rightarrow> json \<Rightarrow> event" where
  "stop_chunk stop_reason stop_sequence output_tokens = Payload (JObj
     [(''type'', JStr ''message_delta''),
      (''delta'', JObj [(''stop_reason'', stop_reason), (''stop_sequence'', stop_sequence)]),
      (''usage'', JObj [(''output_tokens'', output_tokens)])])"

definition ping_chunk :: event where
  "ping_chunk = Payload (JObj [(''type'', JStr ''ping'')])"

definition scripted_stream :: "event list" where
  "scripted_stream =
     [text_chunk ''Hello, '', text_chunk ''world!'', stop_chunk (JStr ''end_turn'') JNull (JInt 5)]"

definition scripted_bedrock :: bedrock where
  "scripted_bedrock body model_id = Inr scripted_stream"

definition stops_only_stream :: "event list" where
  "stops_only_stream =
     [stop_chunk (JStr ''max_tokens'') JNull (JInt 7), stop_chunk (JStr ''end_turn'') JNull (JInt 9)]"

definition stops_only_bedrock :: bedrock where
  "stops_only_bedrock body model_id = Inr stops_only_stream"

definition padded_stream :: "event list" where
  "padded_stream =
     [ping_chunk, text_chunk ''Hello, '', ping_chunk, text_chunk ''world!'', ping_chunk,
      stop_chunk (JStr ''end_turn'') JNull (JInt 5)]"

definition padded_bedrock :: bedrock where
  "padded_bedrock body model_id = Inr padded_stream"

section \<open>The input assembler\<close>

text \<open>
  The file system as the scripts see it during one run: a path names nothing, a directory,
  or a regular file. A regular file carries whether \<^verbatim>\<open>open(path, 'r')\<close> is permitted and what
  \<^verbatim>\<open>f.read()\<close> returns under \<^verbatim>\<open>encoding='UTF-8'\<close>: the text, or nothing when the bytes do not
  decode. Other kinds of file (devices, pipes, sockets) are not modelled.
\<close>

datatype node = Directory | Regular bool "string option"

type_synonym filesystem = "string \<Rightarrow> node option"

text \<open>\<^verbatim>\<open>os.path.exists(path)\<close> and \<^verbatim>\<open>os.path.isfile(path)\<close> for a \<^verbatim>\<open>str\<close> path.\<close>

definition os_path_exists :: "filesystem \<Rightarrow> string \<Rightarrow> bool" where
  "os_path_exists fs path = (case fs path of None \<Rightarrow> False | Some n \<Rightarrow> True)"

definition os_path_isfile :: "filesystem \<Rightarrow> string \<Rightarrow> bool" where
  "os_path_isfile fs path =
     (case fs path of None \<Rightarrow> False | Some Directory \<Rightarrow> False | Some (Regular r t) \<Rightarrow> True)"

text \<open>
  \<^verbatim>\<open>os.path.isfile(path)\<close> where \<open>path\<close> may be \<^verbatim>\<open>None\<close>: \<^verbatim>\<open>os.stat(None)\<close> raises \<^verbatim>\<open>TypeError\<close>,
  which \<^verbatim>\<open>isfile\<close> does not catch (it catches \<^verbatim>\<open>OSError\<close> and \<^verbatim>\<open>ValueError\<close>).
\<close>

definition os_path_isfile_opt :: "filesystem \<Rightarrow> string option \<Rightarrow> error + bool" where
  "os_path_isfile_opt fs path =
     (case path of None \<Rightarrow> Inl TypeError | Some p \<Rightarrow> Inr (os_path_isfile fs p))"

text \<open>\<^verbatim>\<open>with open(path, 'r', encoding='UTF-8') as f: ... f.read()\<close>\<close>

definition open_read :: "filesystem \<Rightarrow> string \<Rightarrow> error + string" where
  "open_read fs path =
     (case fs path of
        None \<Rightarrow> Inl FileNotFoundError
      | Some Directory \<Rightarrow> Inl IsADirectoryError
      | Some (Regular readable text) \<Rightarrow>
          (if \<not> readable then Inl PermissionError
           else (case text of None \<Rightarrow> Inl UnicodeDecodeError | Some s \<Rightarrow> Inr s)))"

text \<open>
  \<^verbatim>\<open>files_reader\<close> of \<^verbatim>\<open>claude3-cli.py\<close> (lines 23-31): the loop on the local \<open>result\<close>, guarded
  by \<^verbatim>\<open>os.path.isfile\<close>.
\<close>

fun files_reader_cli_loop :: "filesystem \<Rightarrow> string \<Rightarrow> string list \<Rightarrow> error + string" where
  "files_reader_cli_loop fs result [] = Inr result"
| "files_reader_cli_loop fs result (path # files) =
    (if os_path_isfile fs path then
       (case open_read fs path of
          Inl e \<Rightarrow> Inl e
        | Inr s \<Rightarrow> files_reader_cli_loop fs (result @ s) files)
     else files_reader_cli_loop fs result files)"

definition files_reader_cli :: "filesystem \<Rightarrow> string list \<Rightarrow> error + string" where
  "files_reader_cli fs files = files_reader_cli_loop fs [] files"

text \<open>
  \<^verbatim>\<open>files_reader\<close> of \<^verbatim>\<open>llm-review-claude3.py\<close> (lines 23-32): the same loop guarded by
  \<^verbatim>\<open>os.path.exists\<close>. The extra \<^verbatim>\<open>f.close()\<close> inside the \<^verbatim>\<open>with\<close> block changes nothing.
\<close>

fun files_reader_review_loop :: "filesystem \<Rightarrow> string \<Rightarrow> string list \<Rightarrow> error + string" where
  "files_reader_review_loop fs result [] = Inr result"
| "files_reader_review_loop fs result (path # files) =
    (if os_path_exists fs path then
       (case open_read fs path of
          Inl e \<Rightarrow> Inl e
        | Inr s \<Rightarrow> files_reader_review_loop fs (result @ s) files)
     else files_reader_review_loop fs result files)"

definition files_reader_review :: "filesystem \<Rightarrow> string list \<Rightarrow> error + string" where
  "files_reader_review fs files = files_reader_review_loop fs [] files"

text \<open>
  \<^verbatim>\<open>sys.stdin.read()\<close>: the whole of standard input as text, or a decode error. Standard
  input is given as the text it decodes to, if it does.
\<close>

definition sys_stdin_read :: "string option \<Rightarrow> error + string" where
  "sys_stdin_read stdin = (case stdin of None \<Rightarrow> Inl UnicodeDecodeError | Some s \<Rightarrow> Inr s)"

text \<open>
  Lines 112-116 of \<^verbatim>\<open>claude3-cli.py\<close> and 88-92 of \<^verbatim>\<open>llm-review-claude3.py\<close>: the files when
  there are any, standard input otherwise.
\<close>

definition input_cli :: "filesystem \<Rightarrow> string option \<Rightarrow> string list \<Rightarrow> error + string" where
  "input_cli fs stdin files =
     (if length files > 0 then files_reader_cli fs files else sys_stdin_read stdin)"

definition input_review :: "filesystem \<Rightarrow> string option \<Rightarrow> string list \<Rightarrow> error + string" where
  "input_review fs stdin files =
     (if length files > 0 then files_reader_review fs files else sys_stdin_read stdin)"

text \<open>What the specification calls an existing readable file, and its text.\<close>

definition readable_file :: "filesystem \<Rightarrow> string \<Rightarrow> bool" where
  "readable_file fs path =
     (case fs path of Some (Regular True (Some s)) \<Rightarrow> True | _ \<Rightarrow> False)"

definition file_text :: "filesystem \<Rightarrow> string \<Rightarrow> string" where
  "file_text fs path = (case fs path of Some (Regular r (Some s)) \<Rightarrow> s | _ \<Rightarrow> [])"

definition unreadable_file :: "filesystem \<Rightarrow> string \<Rightarrow> bool" where
  "unreadable_file fs path = (case fs path of Some (Regular False t) \<Rightarrow> True | _ \<Rightarrow> False)"

definition undecodable_file :: "filesystem \<Rightarrow> string \<Rightarrow> bool" where
  "undecodable_file fs path = (case fs path of Some (Regular True None) \<Rightarrow> True | _ \<Rightarrow> False)"

section \<open>Prompt loading of the generic variant\<close>

text \<open>
  \<^verbatim>\<open>k in v\<close> for a string \<open>k\<close>: key membership in a dictionary, element membership in a list,
  substring test in a string, \<^verbatim>\<open>TypeError\<close> for a number, a boolean and \<^verbatim>\<open>None\<close>.
\<close>

fun substring :: "string \<Rightarrow> string \<Rightarrow> bool" where
  "substring k [] = (k = [])"
| "substring k (c # cs) = (take (length k) (c # cs) = k \<or> substring k cs)"

fun py_in :: "string \<Rightarrow> json \<Rightarrow> error + bool" where
  "py_in k (JObj kvs) = Inr (map_of kvs k \<noteq> None)"
| "py_in k (JArr vs) = Inr (JStr k \<in> set vs)"
| "py_in k (JStr s) = Inr (substring k s)"
| "py_in k JNull = Inl TypeError"
| "py_in k (JBool b) = Inl TypeError"
| "py_in k (JInt i) = Inl TypeError"
| "py_in k (JFloat x) = Inl TypeError"

text \<open>\<^verbatim>\<open>if k in _result: x = _result[k]\<close> with \<open>x\<close> initially \<^verbatim>\<open>None\<close>.\<close>

definition lookup_optional :: "json \<Rightarrow> string \<Rightarrow> error + json" where
  "lookup_optional r k =
     (case py_in k r of Inl e \<Rightarrow> Inl e | Inr b \<Rightarrow> (if b then subscript r k else Inr JNull))"

text \<open>
  \<^verbatim>\<open>read_prompt_json\<close> (\<^verbatim>\<open>claude3-cli.py\<close> lines 34-46). The JSON decoder \<^verbatim>\<open>json.load\<close> is the
  parameter \<open>json_load\<close>, from the text of the file to the decoded value or the exception.
  The path is \<^verbatim>\<open>args.promptfile\<close>, which is \<^verbatim>\<open>None\<close> when the flag is not given.
\<close>

definition load_prompts ::
  "(string \<Rightarrow> error + json) \<Rightarrow> filesystem \<Rightarrow> string \<Rightarrow> error + (json \<times> json)" where
  "load_prompts json_load fs path =
     (case open_read fs path of Inl e \<Rightarrow> Inl e | Inr text \<Rightarrow>
       (case json_load text of Inl e \<Rightarrow> Inl e | Inr r \<Rightarrow>
         (case lookup_optional r ''system_prompt'' of Inl e \<Rightarrow> Inl e | Inr system_prompt \<Rightarrow>
           (case lookup_optional r ''user_prompt'' of Inl e \<Rightarrow> Inl e | Inr user_prompt \<Rightarrow>
             Inr (system_prompt, user_prompt)))))"

definition read_prompt_json ::
  "(string \<Rightarrow> error + json) \<Rightarrow> filesystem \<Rightarrow> string option \<Rightarrow> error + (json \<times> json)" where
  "read_prompt_json json_load fs path =
     (case os_path_isfile_opt fs path of
        Inl e \<Rightarrow> Inl e
      | Inr isfile \<Rightarrow>
          (if isfile then
             (case path of None \<Rightarrow> Inl TypeError | Some p \<Rightarrow> load_prompts json_load fs p)
           else Inr (JNull, JNull)))"

section \<open>The command-line drivers\<close>

text \<open>
  The parsed arguments. The flags both scripts share are the record \<open>common_args\<close>, with the positional
  paths in the field \<open>args\<close> (\<^verbatim>\<open>args.args\<close>); the generic
  variant extends it. A flag that was not given holds its \<^verbatim>\<open>argparse\<close> default: \<^verbatim>\<open>None\<close> for
  \<^verbatim>\<open>--systemprompt\<close>, \<^verbatim>\<open>--prompt\<close> and \<^verbatim>\<open>--promptfile\<close>, the environment variable (or \<^verbatim>\<open>None\<close>)
  for the two keys.
\<close>

record common_args =
  args :: "string list"
  accessKey :: "string option"
  secretKey :: "string option"
  region :: string
  model :: string

record generic_args = common_args +
  maxTokens :: int
  systemprompt :: "string option"
  prompt :: "string option"
  promptfile :: "string option"

text \<open>
  What a run reads from outside: the file system, standard input, the JSON decoder,
  \<^verbatim>\<open>boto3.client\<close> (from the explicit credentials, or none, to a client or an exception) and
  the text Python prints for a value that is neither a string nor \<^verbatim>\<open>None\<close>.
\<close>

record world =
  disk :: filesystem
  standard_input :: "string option"
  json_load :: "string \<Rightarrow> error + json"
  boto3_client :: "(string \<times> string \<times> string) option \<Rightarrow> error + bedrock"
  render :: "json \<Rightarrow> string"

text \<open>
  What a run does: the strings it prints (one per \<^verbatim>\<open>print\<close>), the messages it logs, the
  requests it sends (model id and body) and the exception that ends it, if one does.
\<close>

record run =
  stdout :: "string list"
  logged :: "string list"
  requests :: "(string \<times> json) list"
  uncaught :: "error option"

text \<open>The exit status of the interpreter: 1 after an uncaught exception, 0 otherwise.\<close>

definition exit_status :: "run \<Rightarrow> nat" where
  "exit_status r = (case uncaught r of None \<Rightarrow> 0 | Some e \<Rightarrow> 1)"

text \<open>\<^verbatim>\<open>x + s\<close> for a \<^verbatim>\<open>str\<close> \<open>s\<close>: defined for a \<^verbatim>\<open>str\<close> \<open>x\<close> only.\<close>

fun py_add_str :: "json \<Rightarrow> string \<Rightarrow> error + json" where
  "py_add_str (JStr x) s = Inr (JStr (x @ s))"
| "py_add_str JNull s = Inl TypeError"
| "py_add_str (JBool b) s = Inl TypeError"
| "py_add_str (JInt i) s = Inl TypeError"
| "py_add_str (JFloat x) s = Inl TypeError"
| "py_add_str (JArr vs) s = Inl TypeError"
| "py_add_str (JObj kvs) s = Inl TypeError"

text \<open>\<^verbatim>\<open>str(v)\<close> and \<^verbatim>\<open>format(v)\<close>.\<close>

definition py_str :: "(json \<Rightarrow> string) \<Rightarrow> json \<Rightarrow> string" where
  "py_str rnd v = (case v of JNull \<Rightarrow> ''None'' | JStr s \<Rightarrow> s | _ \<Rightarrow> rnd v)"

text \<open>
  \<^verbatim>\<open>args.accessKey and args.secretKey and args.region\<close> decides between explicit credentials
  and the ambient default; \<^verbatim>\<open>None\<close> and the empty string are false.
\<close>

definition credentials :: "'a common_args_scheme \<Rightarrow> (string \<times> string \<times> string) option" where
  "credentials a =
     (case accessKey a of
        None \<Rightarrow> None
      | Some k \<Rightarrow>
         (case secretKey a of
            None \<Rightarrow> None
          | Some s \<Rightarrow> (if k \<noteq> [] \<and> s \<noteq> [] \<and> region a \<noteq> [] then Some (k, s, region a) else None)))"

definition user_message :: "json \<Rightarrow> json" where
  "user_message user_prompt = JObj
     [(''role'', JStr ''user''),
      (''content'', JArr [JObj [(''type'', JStr ''text''), (''text'', user_prompt)]])]"

text \<open>
  The \<^verbatim>\<open>except ClientError as err\<close> block (\<^verbatim>\<open>claude3-cli.py\<close> lines 168-172,
  \<^verbatim>\<open>llm-review-claude3.py\<close> lines 135-139), on \<^verbatim>\<open>err.response\<close> and the variable \<open>status\<close>.
\<close>

definition client_error_handler :: "world \<Rightarrow> (string \<times> json) list \<Rightarrow> json \<Rightarrow> json \<Rightarrow> run" where
  "client_error_handler w sent response status =
     (case subscript2 response ''Error'' ''Message'' of
        Inl e \<Rightarrow> \<lparr>stdout = [], logged = [], requests = sent, uncaught = Some e\<rparr>
      | Inr message \<Rightarrow>
          \<lparr>stdout = [''A client error occured: '' @ py_str (render w) message,
                     py_str (render w) status],
           logged = [''A client error occurred: '' @ py_str (render w) message],
           requests = sent,
           uncaught = None\<rparr>)"

text \<open>
  An exception leaving the \<^verbatim>\<open>try\<close> block: a \<^verbatim>\<open>ClientError\<close> is handled, anything else ends the
  run. The block assigns \<open>status\<close> only when \<^verbatim>\<open>generate_message\<close> has returned, so \<open>status\<close> is
  still \<^verbatim>\<open>None\<close> here.
\<close>

definition on_exception :: "world \<Rightarrow> (string \<times> json) list \<Rightarrow> error \<Rightarrow> run" where
  "on_exception w sent e =
     (case e of
        ClientError response \<Rightarrow> client_error_handler w sent response JNull
      | _ \<Rightarrow> \<lparr>stdout = [], logged = [], requests = sent, uncaught = Some e\<rparr>)"

text \<open>
  The \<^verbatim>\<open>try\<close> statement of both scripts: make the client, build the single user message,
  call \<^verbatim>\<open>generate_message\<close>, print the text. A client object is true, so the test
  \<^verbatim>\<open>if bedrock_runtime:\<close> always passes. \<open>requests\<close> records the call \<^verbatim>\<open>generate_message\<close>
  makes.
\<close>

definition call_model :: "world \<Rightarrow> 'a common_args_scheme \<Rightarrow> int \<Rightarrow> json \<Rightarrow> json \<Rightarrow> run" where
  "call_model w a max_tokens system_prompt user_prompt =
     (case boto3_client w (credentials a) of
        Inl e \<Rightarrow> on_exception w [] e
      | Inr bedrock_runtime \<Rightarrow>
         (case generate_message bedrock_runtime (model a) system_prompt
                 (JArr [user_message user_prompt]) max_tokens of
            Inl e \<Rightarrow>
              on_exception w
                [(model a, request_body system_prompt (JArr [user_message user_prompt]) max_tokens)] e
          | Inr (response_messages, status) \<Rightarrow>
              \<lparr>stdout = [response_messages], logged = [],
               requests =
                 [(model a, request_body system_prompt (JArr [user_message user_prompt]) max_tokens)],
               uncaught = None\<rparr>))"

text \<open>Lines 120-124 of \<^verbatim>\<open>claude3-cli.py\<close>: a flag that was given replaces the file's value.\<close>

definition resolve_prompts :: "json \<times> json \<Rightarrow> string option \<Rightarrow> string option \<Rightarrow> json \<times> json" where
  "resolve_prompts file_prompts systemprompt_flag prompt_flag =
     ((case systemprompt_flag of None \<Rightarrow> fst file_prompts | Some s \<Rightarrow> JStr s),
      (case prompt_flag of None \<Rightarrow> snd file_prompts | Some u \<Rightarrow> JStr u))"

text \<open>
  Lines 112-126 of \<^verbatim>\<open>claude3-cli.py\<close>, before the \<^verbatim>\<open>try\<close>: the system prompt and the text of
  the user message, \<^verbatim>\<open>user_prompt + "\n" + additional_prompt\<close>.
\<close>

definition prepare_cli :: "world \<Rightarrow> generic_args \<Rightarrow> error + (json \<times> json)" where
  "prepare_cli w a =
     (case input_cli (disk w) (standard_input w) (args a) of Inl e \<Rightarrow> Inl e | Inr additional_prompt \<Rightarrow>
       (case read_prompt_json (json_load w) (disk w) (promptfile a) of
          Inl e \<Rightarrow> Inl e
        | Inr file_prompts \<Rightarrow>
           (case resolve_prompts file_prompts (systemprompt a) (prompt a) of
              (system_prompt, user_prompt) \<Rightarrow>
                (case py_add_str user_prompt [CHR 0x0A] of Inl e \<Rightarrow> Inl e | Inr joined \<Rightarrow>
                  (case py_add_str joined additional_prompt of
                     Inl e \<Rightarrow> Inl e
                   | Inr user_prompt' \<Rightarrow> Inr (system_prompt, user_prompt'))))))"

definition main_cli :: "world \<Rightarrow> generic_args \<Rightarrow> run" where
  "main_cli w a =
     (case prepare_cli w a of
        Inl e \<Rightarrow> \<lparr>stdout = [], logged = [], requests = [], uncaught = Some e\<rparr>
      | Inr (system_prompt, user_prompt) \<Rightarrow>
          call_model w a (if maxTokens a \<noteq> 0 then maxTokens a else 50000)
            system_prompt user_prompt)"

text \<open>The review variant: fixed prompts, the code appended, 50000 tokens.\<close>

definition review_system_prompt :: string where
  "review_system_prompt = ''You'' @ [CHR 0x27] @ ''re the world class best programmer and you''
     @ [CHR 0x27] @ ''re doing pair programming. You'' @ [CHR 0x27]
     @ ''re requeted to code-review. You need pointed out what'' @ [CHR 0x27]
     @ ''s problem, the potential risk and the future expansion. And you need to explain how to solve with expected examples. Example code is expected as diff output manner as -:original code +:modified code''"

definition review_user_prompt :: string where
  "review_user_prompt = ''Please review the following code and please explain the problem and please show the better code about the problematic part.'' @ [CHR 0x0A]"

definition main_review :: "world \<Rightarrow> common_args \<Rightarrow> run" where
  "main_review w a =
     (case input_review (disk w) (standard_input w) (args a) of
        Inl e \<Rightarrow> \<lparr>stdout = [], logged = [], requests = [], uncaught = Some e\<rparr>
      | Inr codes \<Rightarrow>
          call_model w a 50000 (JStr review_system_prompt) (JStr (review_user_prompt @ codes)))"

section \<open>Example runs\<close>

text \<open>
  A small file system: two readable text files, a file that may not be opened, a directory
  and two prompt files. Every other path names nothing.
\<close>

definition example_fs :: filesystem where
  "example_fs = map_of
     [(''a.txt'', Regular True (Some ''alpha'')),
      (''b.txt'', Regular True (Some ''beta'')),
      (''locked'', Regular False (Some ''secret'')),
      (''src'', Directory),
      (''prompt.json'', Regular True (Some ''both prompts'')),
      (''system.json'', Regular True (Some ''system prompt only''))]"

text \<open>A decoder for the two prompt files; their text stands for the JSON it decodes to.\<close>

definition example_json_load :: "string \<Rightarrow> error + json" where
  "example_json_load s =
     (if s = ''both prompts'' then
        Inr (JObj [(''system_prompt'', JStr ''Be brief.''), (''user_prompt'', JStr ''Summarise:'')])
      else if s = ''system prompt only'' then
        Inr (JObj [(''system_prompt'', JStr ''Be brief.'')])
      else Inl JSONDecodeError)"

text \<open>A client whose streaming call raises a client error with the message "Access denied".\<close>

definition access_denied :: json where
  "access_denied = JObj
     [(''Error'', JObj [(''Code'', JStr ''AccessDeniedException''),
                        (''Message'', JStr ''Access denied'')])]"

definition denied_bedrock :: bedrock where
  "denied_bedrock body model_id = Inl (ClientError access_denied)"

definition scripted_client :: "(string \<times> string \<times> string) option \<Rightarrow> error + bedrock" where
  "scripted_client creds = Inr scripted_bedrock"

definition denied_client :: "(string \<times> string \<times> string) option \<Rightarrow> error + bedrock" where
  "denied_client creds = Inr denied_bedrock"

definition plain_render :: "json \<Rightarrow> string" where
  "plain_render v = ''<value>''"

definition example_world :: world where
  "example_world = \<lparr>disk = example_fs, standard_input = Some ''from stdin'',
     json_load = example_json_load, boto3_client = scripted_client, render = plain_render\<rparr>"

definition denied_world :: world where
  "denied_world = \<lparr>disk = example_fs, standard_input = Some ''from stdin'',
     json_load = example_json_load, boto3_client = denied_client, render = plain_render\<rparr>"

definition review_args :: common_args where
  "review_args = \<lparr>args = [''a.txt'', ''missing'', ''b.txt''], accessKey = None,
     secretKey = None, region = ''us-west-2'',
     model = ''anthropic.claude-3-sonnet-20240229-v1:0''\<rparr>"

text \<open>
  The generic variant with both flags and a prompt file; with a prompt file that has no
  \<^verbatim>\<open>user_prompt\<close> and no \<^verbatim>\<open>--prompt\<close>; and with no optional flag at all.
\<close>

definition flags_args :: generic_args where
  "flags_args = \<lparr>args = [''a.txt'', ''missing'', ''b.txt''], accessKey = None,
     secretKey = None, region = ''us-west-2'',
     model = ''anthropic.claude-3-sonnet-20240229-v1:0'', maxTokens = 50000,
     systemprompt = Some ''Be terse.'', prompt = Some ''Explain:'',
     promptfile = Some ''prompt.json''\<rparr>"

definition file_prompt_args :: generic_args where
  "file_prompt_args = \<lparr>args = [''a.txt''], accessKey = None,
     secretKey = None, region = ''us-west-2'',
     model = ''anthropic.claude-3-sonnet-20240229-v1:0'', maxTokens = 50000,
     systemprompt = None, prompt = None, promptfile = Some ''prompt.json''\<rparr>"

definition no_user_prompt_args :: generic_args where
  "no_user_prompt_args = \<lparr>args = [''a.txt''], accessKey = None,
     secretKey = None, region = ''us-west-2'',
     model = ''anthropic.claude-3-sonnet-20240229-v1:0'', maxTokens = 50000,
     systemprompt = None, prompt = None, promptfile = Some ''system.json''\<rparr>"

definition default_args :: generic_args where
  "default_args = \<lparr>args = [''a.txt''], accessKey = None,
     secretKey = None, region = ''us-west-2'',
     model = ''anthropic.claude-3-sonnet-20240229-v1:0'', maxTokens = 50000,
     systemprompt = None, prompt = None, promptfile = None\<rparr>"

section \<open>Properties of the streaming response client\<close>

subsection \<open>One chunk\<close>

lemma on_chunk_notype:
  "subscript c ''type'' = Inl e \<Longrightarrow> on_chunk acc c = Inl e"
  by (simp add: on_chunk_def)

lemma on_chunk_other:
  "subscript c ''type'' = Inr ty \<Longrightarrow> ty \<noteq> JStr ''message_delta'' \<Longrightarrow>
   ty \<noteq> JStr ''content_block_delta'' \<Longrightarrow> on_chunk acc c = Inr acc"
  by (simp add: on_chunk_def)

lemma on_chunk_message_delta:
  "subscript c ''type'' = Inr (JStr ''message_delta'') \<Longrightarrow>
   on_chunk acc c = (case message_delta_status c of Inl e \<Rightarrow> Inl e | Inr st \<Rightarrow> Inr (fst acc, st))"
  by (simp add: on_chunk_def split: sum.splits)

lemma on_chunk_content_block_delta:
  "subscript c ''type'' = Inr (JStr ''content_block_delta'') \<Longrightarrow>
   on_chunk acc c =
     (case subscript2 c ''delta'' ''type'' of Inl e \<Rightarrow> Inl e | Inr dty \<Rightarrow>
        if dty = JStr ''text_delta'' then
          (case subscript2 c ''delta'' ''text'' of Inl e \<Rightarrow> Inl e | Inr t \<Rightarrow>
            (case str_iadd (fst acc) t of Inl e \<Rightarrow> Inl e | Inr r \<Rightarrow> Inr (r, snd acc)))
        else Inr acc)"
  by (simp add: on_chunk_def split: sum.splits)


lemma str_iadd_Inr: "str_iadd r t = Inr r' \<Longrightarrow> \<exists>x. t = JStr x \<and> r' = r @ x"
  by (cases t) auto

lemma not_md_cbd [simp]:
  "JStr ''content_block_delta'' \<noteq> JStr ''message_delta''"
  "JStr ''message_delta'' \<noteq> JStr ''content_block_delta''"
  by simp_all

lemma on_chunk_Inr_md:
  assumes "on_chunk (r, s) c = Inr (r', s')" and ty: "subscript c ''type'' = Inr (JStr ''message_delta'')"
  shows "r' = r" and "s' = delta_status (Payload c)"
    and "is_message_delta (Payload c)" and "\<not> is_text_delta (Payload c)"
proof -
  from assms on_chunk_message_delta [OF ty, of "(r, s)"]
  obtain st where "message_delta_status c = Inr st" "r' = r" "s' = st"
    by (cases "message_delta_status c") auto
  then show "r' = r" and "s' = delta_status (Payload c)" by (simp_all add: delta_status_def)
  show "is_message_delta (Payload c)" using ty by (simp add: is_message_delta_def)
  show "\<not> is_text_delta (Payload c)" using ty by (simp add: is_text_delta_def)
qed

lemma on_chunk_Inr_cbd:
  assumes "on_chunk (r, s) c = Inr (r', s')"
    and ty: "subscript c ''type'' = Inr (JStr ''content_block_delta'')"
  shows "r' = r @ (if is_text_delta (Payload c) then delta_text (Payload c) else [])"
    and "s' = s" and "\<not> is_message_delta (Payload c)"
proof -
  show nm: "\<not> is_message_delta (Payload c)" using ty by (simp add: is_message_delta_def)
  note eq = on_chunk_content_block_delta [OF ty, of "(r, s)"]
  obtain dty where dty: "subscript2 c ''delta'' ''type'' = Inr dty"
    using assms(1) eq by (cases "subscript2 c ''delta'' ''type''") auto
  show "r' = r @ (if is_text_delta (Payload c) then delta_text (Payload c) else [])"
   and "s' = s"
  proof -
    have "r' = r @ (if is_text_delta (Payload c) then delta_text (Payload c) else []) \<and> s' = s"
    proof (cases "dty = JStr ''text_delta''")
      case True
      then obtain t where t: "subscript2 c ''delta'' ''text'' = Inr t"
        using assms(1) eq dty by (cases "subscript2 c ''delta'' ''text''") auto
      then obtain r1 where r1: "str_iadd r t = Inr r1"
        using assms(1) eq dty True by (cases "str_iadd r t") auto
      then obtain x where x: "t = JStr x" "r1 = r @ x" using str_iadd_Inr by blast
      have "r' = r1" "s' = s" using assms(1) eq dty True t r1 by auto
      moreover have "is_text_delta (Payload c)" using ty dty True by (simp add: is_text_delta_def)
      moreover have "delta_text (Payload c) = x" using t x by (simp add: delta_text_def)
      ultimately show ?thesis using x by simp
    next
      case False
      then have "r' = r" "s' = s" using assms(1) eq dty by auto
      moreover have "\<not> is_text_delta (Payload c)" using dty False by (simp add: is_text_delta_def)
      ultimately show ?thesis by simp
    qed
    then show "r' = r @ (if is_text_delta (Payload c) then delta_text (Payload c) else [])"
      and "s' = s" by simp_all
  qed
qed

lemma on_chunk_Inr_other:
  assumes "on_chunk (r, s) c = Inr (r', s')" and ty: "subscript c ''type'' = Inr ty"
    and "ty \<noteq> JStr ''message_delta''" "ty \<noteq> JStr ''content_block_delta''"
  shows "r' = r" and "s' = s" and "\<not> is_message_delta (Payload c)" and "\<not> is_text_delta (Payload c)"
  using assms on_chunk_other [of c ty "(r, s)"]
  by (simp_all add: is_message_delta_def is_text_delta_def)

lemma on_chunk_Inr:
  assumes "on_chunk (r, s) c = Inr (r', s')"
  shows "r' = r @ (if is_text_delta (Payload c) then delta_text (Payload c) else [])"
    and "s' = (if is_message_delta (Payload c) then delta_status (Payload c) else s)"
proof -
  obtain ty where ty: "subscript c ''type'' = Inr ty"
    using assms on_chunk_notype [of c _ "(r, s)"] by (cases "subscript c ''type''") auto
  consider (md) "ty = JStr ''message_delta''" | (cbd) "ty = JStr ''content_block_delta''"
    | (other) "ty \<noteq> JStr ''message_delta''" "ty \<noteq> JStr ''content_block_delta''"
    by blast
  then have "r' = r @ (if is_text_delta (Payload c) then delta_text (Payload c) else [])
    \<and> s' = (if is_message_delta (Payload c) then delta_status (Payload c) else s)"
  proof cases
    case md
    with ty on_chunk_Inr_md [OF assms] show ?thesis by simp
  next
    case cbd
    with ty on_chunk_Inr_cbd [OF assms] show ?thesis by simp
  next
    case other
    with ty on_chunk_Inr_other [OF assms] show ?thesis by simp
  qed
  then show "r' = r @ (if is_text_delta (Payload c) then delta_text (Payload c) else [])"
    and "s' = (if is_message_delta (Payload c) then delta_status (Payload c) else s)" by simp_all
qed

lemma on_event_Inr:
  assumes "on_event (r, s) ev = Inr (r', s')"
  shows "r' = r @ (if is_text_delta ev then delta_text ev else [])"
    and "s' = (if is_message_delta ev then delta_status ev else s)"
proof -
  from assms obtain c where c: "ev = Payload c" "on_chunk (r, s) c = Inr (r', s')"
    by (cases ev) simp_all
  from on_chunk_Inr(1) [OF c(2)] c(1)
  show "r' = r @ (if is_text_delta ev then delta_text ev else [])" by simp
  from on_chunk_Inr(2) [OF c(2)] c(1)
  show "s' = (if is_message_delta ev then delta_status ev else s)" by simp
qed

lemma texts_Cons:
  "texts (ev # evs) = (if is_text_delta ev then delta_text ev else []) @ texts evs"
  by (simp add: texts_def)

lemma final_status_Cons:
  "final_status s (ev # evs) = final_status (if is_message_delta ev then delta_status ev else s) evs"
  by (simp add: final_status_def split: list.splits)

lemma consume_Inr:
  "consume (r, s) evs = Inr (r', s') \<Longrightarrow> r' = r @ texts evs \<and> s' = final_status s evs"
proof (induction evs arbitrary: r s)
  case Nil
  then show ?case by (simp add: texts_def final_status_def)
next
  case (Cons ev evs)
  from Cons.prems obtain r1 s1 where
    st: "on_event (r, s) ev = Inr (r1, s1)" and rest: "consume (r1, s1) evs = Inr (r', s')"
    by (auto split: sum.splits)
  from Cons.IH [OF rest] have "r' = r1 @ texts evs" "s' = final_status s1 evs" by simp_all
  moreover note on_event_Inr [OF st]
  ultimately show ?case
    by (simp add: texts_Cons final_status_Cons)
qed


lemma on_event_ignored: "ignored ev \<Longrightarrow> on_event acc ev = Inr acc"
proof (cases ev)
  case (Payload c)
  assume ig: "ignored ev"
  then obtain ty where ty: "subscript c ''type'' = Inr ty" and nmd: "ty \<noteq> JStr ''message_delta''"
    using Payload by (cases "subscript c ''type''") (auto simp: ignored_def split: if_splits)
  show ?thesis
  proof (cases "ty = JStr ''content_block_delta''")
    case True
    with ig Payload ty nmd obtain dty where
      "subscript2 c ''delta'' ''type'' = Inr dty" "dty \<noteq> JStr ''text_delta''"
      by (cases "subscript2 c ''delta'' ''type''") (auto simp: ignored_def)
    with True ty Payload on_chunk_content_block_delta [of c acc] show ?thesis by simp
  next
    case False
    with ty nmd Payload on_chunk_other [of c ty acc] show ?thesis by simp
  qed
qed (simp_all add: ignored_def)

lemma on_event_text:
  assumes "is_text_delta ev" "has_text ev"
  shows "on_event (r, s) ev = Inr (r @ delta_text ev, s)"
proof -
  from assms(1) obtain c where c: "ev = Payload c"
    and ty: "subscript c ''type'' = Inr (JStr ''content_block_delta'')"
    and dty: "subscript2 c ''delta'' ''type'' = Inr (JStr ''text_delta'')"
    by (cases ev) (auto simp: is_text_delta_def)
  from assms(2) c obtain t where t: "subscript2 c ''delta'' ''text'' = Inr (JStr t)"
    by (auto simp: has_text_def split: sum.splits json.splits)
  then have "delta_text ev = t" using c by (simp add: delta_text_def)
  with c dty t on_chunk_content_block_delta [OF ty, of "(r, s)"] show ?thesis by simp
qed

lemma on_event_status:
  assumes "is_message_delta ev" "has_status ev"
  shows "on_event (r, s) ev = Inr (r, delta_status ev)"
proof -
  from assms(1) obtain c where c: "ev = Payload c"
    and ty: "subscript c ''type'' = Inr (JStr ''message_delta'')"
    by (cases ev) (auto simp: is_message_delta_def)
  from assms(2) c obtain st where st: "message_delta_status c = Inr st"
    by (auto simp: has_status_def split: sum.splits)
  then have "delta_status ev = st" using c by (simp add: delta_status_def)
  with c st on_chunk_message_delta [OF ty, of "(r, s)"] show ?thesis by simp
qed

lemma ignored_not_shapes: "ignored ev \<Longrightarrow> \<not> is_text_delta ev \<and> \<not> is_message_delta ev"
  by (cases ev) (auto simp: ignored_def is_text_delta_def is_message_delta_def split: sum.splits if_splits)

lemma text_not_message: "is_text_delta ev \<Longrightarrow> \<not> is_message_delta ev"
  by (cases ev) (auto simp: is_text_delta_def is_message_delta_def)

lemma on_event_well_formed:
  assumes "well_formed ev"
  shows "on_event (r, s) ev =
     Inr (r @ (if is_text_delta ev then delta_text ev else []),
          if is_message_delta ev then delta_status ev else s)"
proof -
  from assms consider (t) "is_text_delta ev" "has_text ev"
    | (m) "is_message_delta ev" "has_status ev" | (i) "ignored ev"
    by (auto simp: well_formed_def recognized_def)
  then show ?thesis
  proof cases
    case t
    with on_event_text [OF t] text_not_message [OF t(1)] show ?thesis by simp
  next
    case m
    with on_event_status [OF m] text_not_message [of ev] show ?thesis by auto
  next
    case i
    with on_event_ignored [OF i] ignored_not_shapes [OF i] show ?thesis by simp
  qed
qed

lemma consume_well_formed:
  "list_all well_formed evs \<Longrightarrow> consume (r, s) evs = Inr (r @ texts evs, final_status s evs)"
proof (induction evs arbitrary: r s)
  case Nil
  show ?case by (simp add: texts_def final_status_def)
next
  case (Cons ev evs)
  then have wf: "well_formed ev" and rest: "list_all well_formed evs" by simp_all
  show ?case
    by (simp add: on_event_well_formed [OF wf] Cons.IH [OF rest] texts_Cons final_status_Cons)
qed

lemma consume_drop_ignored:
  "consume acc (filter (\<lambda>ev. \<not> ignored ev) evs) = consume acc evs"
proof (induction evs arbitrary: acc)
  case Nil
  show ?case by simp
next
  case (Cons ev evs)
  show ?case
  proof (cases "ignored ev")
    case True
    then show ?thesis by (simp add: on_event_ignored Cons.IH)
  next
    case False
    then show ?thesis by (simp add: Cons.IH split: sum.splits)
  qed
qed

lemma recognized_not_ignored: "recognized ev \<Longrightarrow> \<not> ignored ev"
  using ignored_not_shapes by (auto simp: recognized_def)

lemma filter_recognized:
  "list_all well_formed evs \<Longrightarrow> filter recognized evs = filter (\<lambda>ev. \<not> ignored ev) evs"
  by (induction evs) (auto simp: well_formed_def dest: recognized_not_ignored)


subsection \<open>The example chunks\<close>

lemma text_chunk_shape [simp]:
  "is_text_delta (text_chunk t)" "has_text (text_chunk t)" "delta_text (text_chunk t) = t"
  "\<not> is_message_delta (text_chunk t)" "\<not> ignored (text_chunk t)"
  by (simp_all add: text_chunk_def is_text_delta_def has_text_def delta_text_def
        is_message_delta_def ignored_def subscript2_def)

lemma stop_chunk_shape [simp]:
  "is_message_delta (stop_chunk sr ss ot)" "has_status (stop_chunk sr ss ot)"
  "delta_status (stop_chunk sr ss ot) =
     [(''stop_reason'', sr), (''stop_sequence'', ss), (''output_tokens'', ot)]"
  "\<not> is_text_delta (stop_chunk sr ss ot)" "\<not> ignored (stop_chunk sr ss ot)"
  by (simp_all add: stop_chunk_def is_text_delta_def has_status_def delta_status_def
        is_message_delta_def ignored_def subscript2_def message_delta_status_def)

lemma ping_chunk_shape [simp]:
  "ignored ping_chunk" "\<not> is_text_delta ping_chunk" "\<not> is_message_delta ping_chunk"
  by (simp_all add: ping_chunk_def is_text_delta_def is_message_delta_def ignored_def)

lemma example_chunks_well_formed [simp]:
  "well_formed (text_chunk t)" "well_formed (stop_chunk sr ss ot)" "well_formed ping_chunk"
  "recognized (text_chunk t)" "recognized (stop_chunk sr ss ot)" "\<not> recognized ping_chunk"
  by (simp_all add: well_formed_def recognized_def)

subsection \<open>The whole stream\<close>

lemma generate_message_stream:
  "bedrock_runtime (request_body system_prompt messages max_tokens) model_id = Inr evs \<Longrightarrow>
   generate_message bedrock_runtime model_id system_prompt messages max_tokens
     = consume ([], []) evs"
  by (simp add: generate_message_def)

lemma status_deltas_only:
  assumes "evs \<noteq> []" and "list_all (\<lambda>ev. is_message_delta ev \<and> has_status ev) evs"
  shows "list_all well_formed evs" and "texts evs = []"
    and "final_status s evs = delta_status (last evs)"
proof -
  from assms(2) have all: "\<forall>ev \<in> set evs. is_message_delta ev \<and> has_status ev"
    by (simp add: list_all_iff)
  then show "list_all well_formed evs"
    by (simp add: list_all_iff well_formed_def recognized_def)
  from all have "filter is_text_delta evs = []"
    using text_not_message by (auto simp: filter_empty_conv)
  then show "texts evs = []" by (simp add: texts_def)
  from all have "filter is_message_delta evs = evs" by (simp add: filter_id_conv)
  with assms(1) show "final_status s evs = delta_status (last evs)"
    by (cases evs) (simp_all add: final_status_def)
qed

lemma delta_status_keys:
  assumes "has_status ev"
  shows "map fst (delta_status ev) = [''stop_reason'', ''stop_sequence'', ''output_tokens'']"
proof -
  from assms obtain c st where c: "ev = Payload c" "message_delta_status c = Inr st"
    by (cases ev) (auto simp: has_status_def split: sum.splits)
  then have "map fst st = [''stop_reason'', ''stop_sequence'', ''output_tokens'']"
    by (auto simp: message_delta_status_def split: sum.splits)
  with c show ?thesis by (simp add: delta_status_def)
qed

text \<open>
  C1. For every finite stream consumed by \<^verbatim>\<open>generate_message\<close>, the accumulated text is the
  concatenation, in the order received, of the text fields of exactly the chunks whose type is
  \<^verbatim>\<open>content_block_delta\<close> and whose \<^verbatim>\<open>delta.type\<close> is \<^verbatim>\<open>text_delta\<close>: whenever the function
  returns, that is the text it returns, and it does return on every stream of well-formed
  chunks. The scripted stream of "Hello, ", "world!" and one \<^verbatim>\<open>message_delta\<close> with
  \<^verbatim>\<open>end_turn\<close>, null and 5 gives the text "Hello, world!" and exactly that status.
\<close>

theorem generate_message_text:
  "(bedrock_runtime (request_body system_prompt messages max_tokens) model_id = Inr evs \<longrightarrow>
      (\<forall>res st.
          generate_message bedrock_runtime model_id system_prompt messages max_tokens
            = Inr (res, st) \<longrightarrow>
          res = concat (map delta_text (filter is_text_delta evs)))
      \<and> (list_all well_formed evs \<longrightarrow>
          (\<exists>st. generate_message bedrock_runtime model_id system_prompt messages max_tokens
             = Inr (concat (map delta_text (filter is_text_delta evs)), st))))
   \<and> generate_message scripted_bedrock model_id system_prompt messages max_tokens
       = Inr (''Hello, world!'',
              [(''stop_reason'', JStr ''end_turn''), (''stop_sequence'', JNull),
               (''output_tokens'', JInt 5)])"
proof (intro conjI impI allI)
  fix res st
  assume "bedrock_runtime (request_body system_prompt messages max_tokens) model_id = Inr evs"
    and "generate_message bedrock_runtime model_id system_prompt messages max_tokens
           = Inr (res, st)"
  then have "consume ([], []) evs = Inr (res, st)"
    by (simp add: generate_message_stream)
  from consume_Inr [OF this] show "res = concat (map delta_text (filter is_text_delta evs))"
    by (simp add: texts_def)
next
  assume "bedrock_runtime (request_body system_prompt messages max_tokens) model_id = Inr evs"
    and "list_all well_formed evs"
  then show "\<exists>st. generate_message bedrock_runtime model_id system_prompt messages max_tokens
      = Inr (concat (map delta_text (filter is_text_delta evs)), st)"
    by (simp add: generate_message_stream consume_well_formed texts_def)
next
  have "list_all well_formed scripted_stream" by (simp add: scripted_stream_def)
  then have "consume ([], []) scripted_stream
      = Inr ([] @ texts scripted_stream, final_status [] scripted_stream)"
    by (rule consume_well_formed)
  moreover have "texts scripted_stream = ''Hello, world!''"
    by (simp add: texts_def scripted_stream_def)
  moreover have "final_status [] scripted_stream
      = [(''stop_reason'', JStr ''end_turn''), (''stop_sequence'', JNull),
         (''output_tokens'', JInt 5)]"
    by (simp add: final_status_def scripted_stream_def)
  ultimately show "generate_message scripted_bedrock model_id system_prompt messages max_tokens
       = Inr (''Hello, world!'',
              [(''stop_reason'', JStr ''end_turn''), (''stop_sequence'', JNull),
               (''output_tokens'', JInt 5)])"
    by (simp add: generate_message_def scripted_bedrock_def)
qed

theorem generate_message_text_witness:
  "scripted_bedrock (request_body JNull (JArr []) 5) ''m'' = Inr scripted_stream
   \<and> list_all well_formed scripted_stream
   \<and> (\<exists>st. generate_message scripted_bedrock ''m'' JNull (JArr []) 5 = Inr (''Hello, world!'', st))"
proof -
  have h1: "scripted_bedrock (request_body JNull (JArr []) 5) ''m'' = Inr scripted_stream"
    by (simp add: scripted_bedrock_def)
  have h2: "list_all well_formed scripted_stream" by (simp add: scripted_stream_def)
  have t: "concat (map delta_text (filter is_text_delta scripted_stream)) = ''Hello, world!''"
    by (simp add: scripted_stream_def)
  note run = generate_message_text [of scripted_bedrock JNull "JArr []" 5 "''m''" scripted_stream]
  from run h1 h2 have b:
    "\<exists>st. generate_message scripted_bedrock ''m'' JNull (JArr []) 5
       = Inr (concat (map delta_text (filter is_text_delta scripted_stream)), st)"
    by blast
  from b h1 h2 show ?thesis unfolding t by blast
qed

text \<open>
  C2. For every finite stream consumed by \<^verbatim>\<open>generate_message\<close>, the returned status is the
  \<^verbatim>\<open>stop_reason\<close>, \<^verbatim>\<open>stop_sequence\<close> and \<^verbatim>\<open>output_tokens\<close> of the last chunk of type
  \<^verbatim>\<open>message_delta\<close> (each one overwrites the status), and the empty dictionary when there is
  none; a stream of \<^verbatim>\<open>message_delta\<close> chunks only gives the empty text and a status with the
  three keys.
\<close>

theorem generate_message_status:
  "bedrock_runtime (request_body system_prompt messages max_tokens) model_id = Inr evs \<Longrightarrow>
     (\<forall>res st.
         generate_message bedrock_runtime model_id system_prompt messages max_tokens
           = Inr (res, st) \<longrightarrow>
         st = (case filter is_message_delta evs of
                 [] \<Rightarrow> []
               | m # ms \<Rightarrow> delta_status (last (m # ms))))
     \<and> (list_all well_formed evs \<longrightarrow>
         (\<exists>res. generate_message bedrock_runtime model_id system_prompt messages max_tokens
            = Inr (res, final_status [] evs)))
     \<and> (evs \<noteq> [] \<and> list_all (\<lambda>ev. is_message_delta ev \<and> has_status ev) evs \<longrightarrow>
         generate_message bedrock_runtime model_id system_prompt messages max_tokens
           = Inr ([], delta_status (last evs))
         \<and> map fst (delta_status (last evs))
             = [''stop_reason'', ''stop_sequence'', ''output_tokens''])"
proof (intro conjI impI allI)
  assume run: "bedrock_runtime (request_body system_prompt messages max_tokens) model_id = Inr evs"
  {
    fix res st
    assume "generate_message bedrock_runtime model_id system_prompt messages max_tokens
           = Inr (res, st)"
    with run have "consume ([], []) evs = Inr (res, st)"
      by (simp add: generate_message_stream)
    from consume_Inr [OF this]
    show "st = (case filter is_message_delta evs of
                 [] \<Rightarrow> []
               | m # ms \<Rightarrow> delta_status (last (m # ms)))"
      by (simp add: final_status_def)
  }
  {
    assume "list_all well_formed evs"
    with run
    show "\<exists>res. generate_message bedrock_runtime model_id system_prompt messages max_tokens
        = Inr (res, final_status [] evs)"
      by (simp add: generate_message_stream consume_well_formed)
  }
  {
    assume only: "evs \<noteq> [] \<and> list_all (\<lambda>ev. is_message_delta ev \<and> has_status ev) evs"
    then have ne: "evs \<noteq> []"
      and md: "list_all (\<lambda>ev. is_message_delta ev \<and> has_status ev) evs" by simp_all
    from status_deltas_only [OF ne md] run
    show "generate_message bedrock_runtime model_id system_prompt messages max_tokens
           = Inr ([], delta_status (last evs))"
      by (simp add: generate_message_stream consume_well_formed)
    from ne md have "has_status (last evs)" by (simp add: list_all_iff)
    then show "map fst (delta_status (last evs))
             = [''stop_reason'', ''stop_sequence'', ''output_tokens'']"
      by (rule delta_status_keys)
  }
qed

theorem generate_message_status_witness:
  "stops_only_bedrock (request_body JNull (JArr []) 5) ''m'' = Inr stops_only_stream
   \<and> stops_only_stream \<noteq> []
   \<and> list_all (\<lambda>ev. is_message_delta ev \<and> has_status ev) stops_only_stream
   \<and> generate_message stops_only_bedrock ''m'' JNull (JArr []) 5
       = Inr ([], [(''stop_reason'', JStr ''end_turn''), (''stop_sequence'', JNull),
                   (''output_tokens'', JInt 9)])"
proof -
  have h1: "stops_only_bedrock (request_body JNull (JArr []) 5) ''m'' = Inr stops_only_stream"
    by (simp add: stops_only_bedrock_def)
  have h2: "stops_only_stream \<noteq> []"
    and h3: "list_all (\<lambda>ev. is_message_delta ev \<and> has_status ev) stops_only_stream"
    and l: "delta_status (last stops_only_stream)
      = [(''stop_reason'', JStr ''end_turn''), (''stop_sequence'', JNull),
         (''output_tokens'', JInt 9)]"
    by (simp_all add: stops_only_stream_def)
  from generate_message_status
         [of stops_only_bedrock JNull "JArr []" 5 "''m''" stops_only_stream]
    h1 h2 h3 l
  show ?thesis by simp
qed

text \<open>
  C8. Inserting or removing, at any positions, chunks whose type is neither \<^verbatim>\<open>message_delta\<close>
  nor \<^verbatim>\<open>content_block_delta\<close>, or \<^verbatim>\<open>content_block_delta\<close> chunks whose \<^verbatim>\<open>delta.type\<close> is not
  \<^verbatim>\<open>text_delta\<close>, changes neither the text nor the status \<^verbatim>\<open>generate_message\<close> returns: two
  streams that agree once these chunks are dropped give the same result, and the result on
  a stream of well-formed chunks is the result on its recognized chunks alone.
\<close>

theorem generate_message_ignores_other_chunks:
  "(bedrock_runtime (request_body system_prompt messages max_tokens) model_id = Inr evs
      \<and> bedrock_runtime' (request_body system_prompt messages max_tokens) model_id = Inr evs'
      \<and> filter (\<lambda>ev. \<not> ignored ev) evs = filter (\<lambda>ev. \<not> ignored ev) evs' \<longrightarrow>
      generate_message bedrock_runtime model_id system_prompt messages max_tokens
        = generate_message bedrock_runtime' model_id system_prompt messages max_tokens)
   \<and> (bedrock_runtime (request_body system_prompt messages max_tokens) model_id = Inr evs
      \<and> bedrock_runtime' (request_body system_prompt messages max_tokens) model_id
          = Inr (filter recognized evs)
      \<and> list_all well_formed evs \<longrightarrow>
      generate_message bedrock_runtime model_id system_prompt messages max_tokens
        = generate_message bedrock_runtime' model_id system_prompt messages max_tokens)"
proof (intro conjI impI)
  assume h: "bedrock_runtime (request_body system_prompt messages max_tokens) model_id = Inr evs
      \<and> bedrock_runtime' (request_body system_prompt messages max_tokens) model_id = Inr evs'
      \<and> filter (\<lambda>ev. \<not> ignored ev) evs = filter (\<lambda>ev. \<not> ignored ev) evs'"
  have "consume ([], []) evs = consume ([], []) (filter (\<lambda>ev. \<not> ignored ev) evs)"
    by (simp add: consume_drop_ignored)
  also have "\<dots> = consume ([], []) (filter (\<lambda>ev. \<not> ignored ev) evs')" using h by simp
  also have "\<dots> = consume ([], []) evs'" by (simp add: consume_drop_ignored)
  finally show "generate_message bedrock_runtime model_id system_prompt messages max_tokens
        = generate_message bedrock_runtime' model_id system_prompt messages max_tokens"
    using h by (simp add: generate_message_stream)
next
  assume h: "bedrock_runtime (request_body system_prompt messages max_tokens) model_id = Inr evs
      \<and> bedrock_runtime' (request_body system_prompt messages max_tokens) model_id
          = Inr (filter recognized evs)
      \<and> list_all well_formed evs"
  then have "filter recognized evs = filter (\<lambda>ev. \<not> ignored ev) evs"
    by (simp add: filter_recognized)
  then have "consume ([], []) (filter recognized evs) = consume ([], []) evs"
    by (simp add: consume_drop_ignored)
  then show "generate_message bedrock_runtime model_id system_prompt messages max_tokens
        = generate_message bedrock_runtime' model_id system_prompt messages max_tokens"
    using h by (simp add: generate_message_stream)
qed

theorem generate_message_ignores_other_chunks_witness:
  "padded_bedrock (request_body JNull (JArr []) 5) ''m'' = Inr padded_stream
   \<and> scripted_bedrock (request_body JNull (JArr []) 5) ''m'' = Inr scripted_stream
   \<and> filter (\<lambda>ev. \<not> ignored ev) padded_stream = filter (\<lambda>ev. \<not> ignored ev) scripted_stream
   \<and> filter recognized padded_stream = scripted_stream
   \<and> list_all well_formed padded_stream
   \<and> generate_message padded_bedrock ''m'' JNull (JArr []) 5
       = generate_message scripted_bedrock ''m'' JNull (JArr []) 5"
proof -
  have h1: "padded_bedrock (request_body JNull (JArr []) 5) ''m'' = Inr padded_stream"
    by (simp add: padded_bedrock_def)
  have h2: "scripted_bedrock (request_body JNull (JArr []) 5) ''m'' = Inr scripted_stream"
    by (simp add: scripted_bedrock_def)
  have h3: "filter (\<lambda>ev. \<not> ignored ev) padded_stream
      = filter (\<lambda>ev. \<not> ignored ev) scripted_stream"
    and h4: "filter recognized padded_stream = scripted_stream"
    and h5: "list_all well_formed padded_stream"
    by (simp_all add: padded_stream_def scripted_stream_def)
  from generate_message_ignores_other_chunks
         [of padded_bedrock JNull "JArr []" 5 "''m''" padded_stream scripted_bedrock
             scripted_stream]
    h1 h2 h3 h4 h5
  show ?thesis by simp
qed

section \<open>Properties of the input assembler\<close>

lemma example_fs_lookup [simp]:
  "example_fs ''a.txt'' = Some (Regular True (Some ''alpha''))"
  "example_fs ''b.txt'' = Some (Regular True (Some ''beta''))"
  "example_fs ''locked'' = Some (Regular False (Some ''secret''))"
  "example_fs ''src'' = Some Directory"
  "example_fs ''prompt.json'' = Some (Regular True (Some ''both prompts''))"
  "example_fs ''system.json'' = Some (Regular True (Some ''system prompt only''))"
  "example_fs ''missing'' = None"
  by (simp_all add: example_fs_def)

lemma open_read_readable:
  "readable_file fs path \<Longrightarrow> open_read fs path = Inr (file_text fs path)"
  by (auto simp: readable_file_def open_read_def file_text_def
           split: option.splits node.splits bool.splits)

lemma readable_is_file: "readable_file fs path \<Longrightarrow> os_path_isfile fs path"
  by (auto simp: readable_file_def os_path_isfile_def
           split: option.splits node.splits bool.splits)

lemma open_read_unreadable:
  "unreadable_file fs path \<Longrightarrow> open_read fs path = Inl PermissionError"
  by (auto simp: unreadable_file_def open_read_def
           split: option.splits node.splits bool.splits)

lemma unreadable_is_file:
  "unreadable_file fs path \<Longrightarrow> os_path_isfile fs path \<and> os_path_exists fs path"
  by (auto simp: unreadable_file_def os_path_isfile_def os_path_exists_def
           split: option.splits node.splits bool.splits)

lemma isfile_exists: "os_path_isfile fs path \<Longrightarrow> os_path_exists fs path"
  by (auto simp: os_path_isfile_def os_path_exists_def split: option.splits)





lemma files_reader_cli_loop_unreadable:
  "unreadable_file fs p \<Longrightarrow> files_reader_cli_loop fs r (p # ps) = Inl PermissionError"
  by (simp add: unreadable_is_file open_read_unreadable)

lemma files_reader_review_loop_unreadable:
  "unreadable_file fs p \<Longrightarrow> files_reader_review_loop fs r (p # ps) = Inl PermissionError"
  by (simp add: unreadable_is_file open_read_unreadable)








text \<open>
  C10 says that the two \<^verbatim>\<open>files_reader\<close> functions return the same result on every sequence of
  paths, directories included. On a directory they differ: the generic variant tests
  \<^verbatim>\<open>os.path.isfile\<close> and skips it, the review variant tests \<^verbatim>\<open>os.path.exists\<close>, opens it and
  raises.
\<close>

theorem files_reader_variants_differ_on_directory:
  "files_reader_cli example_fs [''a.txt'', ''src''] = Inr ''alpha''
   \<and> files_reader_review example_fs [''a.txt'', ''src''] = Inl IsADirectoryError"
  by (simp add: files_reader_cli_def files_reader_review_def os_path_isfile_def
        os_path_exists_def open_read_def)

text \<open>Away from directories the two functions agree.\<close>

lemma files_reader_cli_review_agree:
  "\<forall>p \<in> set files. fs p \<noteq> Some Directory \<Longrightarrow>
   files_reader_review_loop fs r files = files_reader_cli_loop fs r files"
proof (induction files arbitrary: r)
  case Nil
  show ?case by simp
next
  case (Cons p ps)
  then have "fs p \<noteq> Some Directory" and rest: "\<forall>q \<in> set ps. fs q \<noteq> Some Directory"
    by simp_all
  then have "os_path_exists fs p = os_path_isfile fs p"
    by (auto simp: os_path_exists_def os_path_isfile_def split: option.splits node.splits)
  then show ?case by (simp add: Cons.IH [OF rest] split: sum.splits)
qed

lemma files_reader_variants_agree:
  "\<forall>p \<in> set files. fs p \<noteq> Some Directory \<Longrightarrow>
   files_reader_review fs files = files_reader_cli fs files"
  by (simp add: files_reader_review_def files_reader_cli_def files_reader_cli_review_agree)

section \<open>Properties of prompt loading and of the drivers\<close>

subsection \<open>The prompt file\<close>

lemma read_prompt_json_not_a_file:
  "\<not> os_path_isfile fs p \<Longrightarrow> read_prompt_json jl fs (Some p) = Inr (JNull, JNull)"
  by (simp add: read_prompt_json_def os_path_isfile_opt_def)

lemma lookup_optional_object:
  "lookup_optional (JObj kvs) k = Inr (case map_of kvs k of None \<Rightarrow> JNull | Some v \<Rightarrow> v)"
  by (simp add: lookup_optional_def split: option.splits)

lemma read_prompt_json_object:
  assumes "readable_file fs p" and "jl (file_text fs p) = Inr (JObj kvs)"
  shows "read_prompt_json jl fs (Some p) =
     Inr (case map_of kvs ''system_prompt'' of None \<Rightarrow> JNull | Some v \<Rightarrow> v,
          case map_of kvs ''user_prompt'' of None \<Rightarrow> JNull | Some v \<Rightarrow> v)"
  using assms
  by (simp add: read_prompt_json_def os_path_isfile_opt_def readable_is_file
        load_prompts_def open_read_readable lookup_optional_object)

lemma example_prompt_files [simp]:
  "read_prompt_json example_json_load example_fs (Some ''prompt.json'')
     = Inr (JStr ''Be brief.'', JStr ''Summarise:'')"
  "read_prompt_json example_json_load example_fs (Some ''system.json'')
     = Inr (JStr ''Be brief.'', JNull)"
  "read_prompt_json example_json_load example_fs (Some ''missing'') = Inr (JNull, JNull)"
proof -
  have r: "readable_file example_fs ''prompt.json''" "readable_file example_fs ''system.json''"
    "file_text example_fs ''prompt.json'' = ''both prompts''"
    "file_text example_fs ''system.json'' = ''system prompt only''"
    by (simp_all add: readable_file_def file_text_def)
  have j: "example_json_load ''both prompts''
      = Inr (JObj [(''system_prompt'', JStr ''Be brief.''), (''user_prompt'', JStr ''Summarise:'')])"
    "example_json_load ''system prompt only'' = Inr (JObj [(''system_prompt'', JStr ''Be brief.'')])"
    by (simp_all add: example_json_load_def)
  show "read_prompt_json example_json_load example_fs (Some ''prompt.json'')
     = Inr (JStr ''Be brief.'', JStr ''Summarise:'')"
    using read_prompt_json_object [OF r(1), of example_json_load] r(3) j(1) by simp
  show "read_prompt_json example_json_load example_fs (Some ''system.json'')
     = Inr (JStr ''Be brief.'', JNull)"
    using read_prompt_json_object [OF r(2), of example_json_load] r(4) j(2) by simp
  show "read_prompt_json example_json_load example_fs (Some ''missing'') = Inr (JNull, JNull)"
    by (simp add: read_prompt_json_not_a_file os_path_isfile_def)
qed

lemma example_inputs [simp]:
  "input_cli example_fs inp [''a.txt'', ''missing'', ''b.txt''] = Inr ''alphabeta''"
  "input_review example_fs inp [''a.txt'', ''missing'', ''b.txt''] = Inr ''alphabeta''"
  "input_cli example_fs inp [''a.txt''] = Inr ''alpha''"
  by (simp_all add: input_cli_def input_review_def files_reader_cli_def files_reader_review_def
        os_path_isfile_def os_path_exists_def open_read_def)

lemma example_world_fields [simp]:
  "disk example_world = example_fs" "standard_input example_world = Some ''from stdin''"
  "json_load example_world = example_json_load" "boto3_client example_world = scripted_client"
  "render example_world = plain_render"
  "disk denied_world = example_fs" "standard_input denied_world = Some ''from stdin''"
  "json_load denied_world = example_json_load" "boto3_client denied_world = denied_client"
  "render denied_world = plain_render"
  by (simp_all add: example_world_def denied_world_def)

text \<open>
  C6 says that prompt loading yields absent prompts without an error for every prompt-file
  argument, the default without \<^verbatim>\<open>--promptfile\<close> included. In the default case
  \<^verbatim>\<open>args.promptfile\<close> is \<^verbatim>\<open>None\<close>, \<^verbatim>\<open>os.path.isfile(None)\<close> raises \<^verbatim>\<open>TypeError\<close>, and the run
  of the generic variant ends there with nothing sent and nothing printed.
\<close>

theorem read_prompt_json_default_raises:
  "read_prompt_json jl fs None = Inl TypeError
   \<and> main_cli example_world default_args
       = \<lparr>stdout = [], logged = [], requests = [], uncaught = Some TypeError\<rparr>"
  by (simp add: read_prompt_json_def os_path_isfile_opt_def main_cli_def prepare_cli_def
        default_args_def)

subsection \<open>Resolving the prompts\<close>

text \<open>
  C7. In the generic variant, when a prompt file and the \<^verbatim>\<open>--systemprompt\<close> and/or
  \<^verbatim>\<open>--prompt\<close> flags are given, the value of each flag that is given replaces the value of
  the prompt file in the resolved system and user prompts: nothing of the file's value is
  left in it.
\<close>

theorem flags_override_prompt_file:
  "fst (resolve_prompts file_prompts (Some s) prompt_flag) = JStr s
   \<and> snd (resolve_prompts file_prompts systemprompt_flag (Some u)) = JStr u
   \<and> (input_cli (disk w) (standard_input w) (args a) = Inr content
        \<and> read_prompt_json (json_load w) (disk w) (promptfile a) = Inr file_prompts
        \<and> systemprompt a = Some s \<and> prompt a = Some u \<longrightarrow>
      prepare_cli w a = Inr (JStr s, JStr (u @ [CHR 0x0A] @ content)))
   \<and> (systemprompt a = Some s \<and> prepare_cli w a = Inr (sp, up) \<longrightarrow> sp = JStr s)
   \<and> (input_cli (disk w) (standard_input w) (args a) = Inr content
        \<and> prompt a = Some u \<and> prepare_cli w a = Inr (sp, up) \<longrightarrow>
      up = JStr (u @ [CHR 0x0A] @ content))"
proof (intro conjI impI)
  show "fst (resolve_prompts file_prompts (Some s) prompt_flag) = JStr s"
    by (simp add: resolve_prompts_def)
  show "snd (resolve_prompts file_prompts systemprompt_flag (Some u)) = JStr u"
    by (simp add: resolve_prompts_def)
next
  assume "input_cli (disk w) (standard_input w) (args a) = Inr content
        \<and> read_prompt_json (json_load w) (disk w) (promptfile a) = Inr file_prompts
        \<and> systemprompt a = Some s \<and> prompt a = Some u"
  then show "prepare_cli w a = Inr (JStr s, JStr (u @ [CHR 0x0A] @ content))"
    by (simp add: prepare_cli_def resolve_prompts_def)
next
  assume "systemprompt a = Some s \<and> prepare_cli w a = Inr (sp, up)"
  then show "sp = JStr s"
    by (auto simp: prepare_cli_def resolve_prompts_def split: sum.splits)
next
  assume "input_cli (disk w) (standard_input w) (args a) = Inr content
        \<and> prompt a = Some u \<and> prepare_cli w a = Inr (sp, up)"
  then show "up = JStr (u @ [CHR 0x0A] @ content)"
    by (auto simp: prepare_cli_def resolve_prompts_def split: sum.splits)
qed

theorem flags_override_prompt_file_witness:
  "input_cli (disk example_world) (standard_input example_world) (args flags_args)
     = Inr ''alphabeta''
   \<and> read_prompt_json (json_load example_world) (disk example_world) (promptfile flags_args)
       = Inr (JStr ''Be brief.'', JStr ''Summarise:'')
   \<and> systemprompt flags_args = Some ''Be terse.'' \<and> prompt flags_args = Some ''Explain:''
   \<and> prepare_cli example_world flags_args
       = Inr (JStr ''Be terse.'', JStr (''Explain:'' @ [CHR 0x0A] @ ''alphabeta''))"
proof -
  have h1: "input_cli (disk example_world) (standard_input example_world) (args flags_args)
     = Inr ''alphabeta''"
    by (simp add: flags_args_def)
  have h2: "read_prompt_json (json_load example_world) (disk example_world)
      (promptfile flags_args) = Inr (JStr ''Be brief.'', JStr ''Summarise:'')"
    by (simp add: flags_args_def)
  have h3: "systemprompt flags_args = Some ''Be terse.''"
    and h4: "prompt flags_args = Some ''Explain:''"
    by (simp_all add: flags_args_def)
  note inst = flags_override_prompt_file
    [of "(JStr ''Be brief.'', JStr ''Summarise:'')" "''Be terse.''" None None "''Explain:''"
        example_world flags_args "''alphabeta''" JNull JNull]
  from inst h1 h2 h3 h4 have
    "prepare_cli example_world flags_args
       = Inr (JStr ''Be terse.'', JStr (''Explain:'' @ [CHR 0x0A] @ ''alphabeta''))"
    by blast
  with h1 h2 h3 h4 show ?thesis by blast
qed

subsection \<open>The user message\<close>

lemma call_model_requests:
  "boto3_client w (credentials a) = Inr bedrock_runtime \<Longrightarrow>
   requests (call_model w a max_tokens system_prompt user_prompt)
     = [(model a, request_body system_prompt (JArr [user_message user_prompt]) max_tokens)]"
  by (simp add: call_model_def on_exception_def client_error_handler_def
           split: sum.splits error.splits prod.splits)

text \<open>With a base user prompt the single user message is the prompt, a newline, the content.\<close>

lemma user_message_with_base_prompt:
  assumes "input_cli (disk w) (standard_input w) (args a) = Inr content"
    and "read_prompt_json (json_load w) (disk w) (promptfile a) = Inr file_prompts"
    and "snd (resolve_prompts file_prompts (systemprompt a) (prompt a)) = JStr base"
    and "boto3_client w (credentials a) = Inr bedrock_runtime"
  shows "requests (main_cli w a) =
     [(model a,
       request_body (fst (resolve_prompts file_prompts (systemprompt a) (prompt a)))
         (JArr [user_message (JStr (base @ [CHR 0x0A] @ content))])
         (if maxTokens a \<noteq> 0 then maxTokens a else 50000))]"
proof -
  obtain sp up where r: "resolve_prompts file_prompts (systemprompt a) (prompt a) = (sp, up)"
    by (cases "resolve_prompts file_prompts (systemprompt a) (prompt a)")
  with assms(3) have up: "up = JStr base" by simp
  from assms(1,2) r up have "prepare_cli w a = Inr (sp, JStr (base @ [CHR 0x0A] @ content))"
    by (simp add: prepare_cli_def)
  with r call_model_requests [OF assms(4)] show ?thesis by (simp add: main_cli_def)
qed

text \<open>
  C5 says that the generic variant sends the content on its own, without error, when no
  base user prompt is supplied. With a prompt file that has no \<^verbatim>\<open>user_prompt\<close> and without
  \<^verbatim>\<open>--prompt\<close>, \<open>user_prompt\<close> is \<^verbatim>\<open>None\<close> and \<^verbatim>\<open>user_prompt + "\n"\<close> raises \<^verbatim>\<open>TypeError\<close> before the
  \<^verbatim>\<open>try\<close>: nothing is sent, nothing is printed, the exception is not caught.
\<close>

theorem no_user_prompt_raises:
  "main_cli example_world no_user_prompt_args
     = \<lparr>stdout = [], logged = [], requests = [], uncaught = Some TypeError\<rparr>
   \<and> exit_status (main_cli example_world no_user_prompt_args) = 1"
proof -
  have "prepare_cli example_world no_user_prompt_args = Inl TypeError"
    by (simp add: prepare_cli_def no_user_prompt_args_def resolve_prompts_def)
  then show ?thesis by (simp add: main_cli_def exit_status_def)
qed

subsection \<open>A client error\<close>

lemma call_model_client_error:
  assumes "boto3_client w (credentials a) = Inr bedrock_runtime"
    and "bedrock_runtime (request_body system_prompt (JArr [user_message user_prompt]) max_tokens)
           (model a) = Inl (ClientError response)"
    and "subscript2 response ''Error'' ''Message'' = Inr (JStr m)"
  shows "call_model w a max_tokens system_prompt user_prompt =
     \<lparr>stdout = [''A client error occured: '' @ m, ''None''],
      logged = [''A client error occurred: '' @ m],
      requests = [(model a, request_body system_prompt (JArr [user_message user_prompt]) max_tokens)],
      uncaught = None\<rparr>"
  using assms
  by (simp add: call_model_def generate_message_def on_exception_def client_error_handler_def
        py_str_def)

text \<open>
  C4. In both variants, when the remote streaming call raises a client error with message
  \<open>m\<close>, the exception is caught, the run prints a line that contains \<open>m\<close> and then the text of
  the status variable, which is \<^verbatim>\<open>None\<close>, and the process exits with status 0.
\<close>

theorem client_error_is_reported:
  "(prepare_cli w a = Inr (system_prompt, user_prompt)
      \<and> boto3_client w (credentials a) = Inr bedrock_runtime
      \<and> bedrock_runtime
           (request_body system_prompt (JArr [user_message user_prompt])
              (if maxTokens a \<noteq> 0 then maxTokens a else 50000))
           (model a) = Inl (ClientError response)
      \<and> subscript2 response ''Error'' ''Message'' = Inr (JStr m) \<longrightarrow>
      stdout (main_cli w a) = [''A client error occured: '' @ m, ''None'']
      \<and> uncaught (main_cli w a) = None
      \<and> exit_status (main_cli w a) = 0)
   \<and> (input_review (disk w) (standard_input w) (args b) = Inr codes
      \<and> boto3_client w (credentials b) = Inr bedrock_runtime'
      \<and> bedrock_runtime'
           (request_body (JStr review_system_prompt)
              (JArr [user_message (JStr (review_user_prompt @ codes))]) 50000)
           (model b) = Inl (ClientError response)
      \<and> subscript2 response ''Error'' ''Message'' = Inr (JStr m) \<longrightarrow>
      stdout (main_review w b) = [''A client error occured: '' @ m, ''None'']
      \<and> uncaught (main_review w b) = None
      \<and> exit_status (main_review w b) = 0)"
proof (intro conjI impI)
  assume h: "prepare_cli w a = Inr (system_prompt, user_prompt)
      \<and> boto3_client w (credentials a) = Inr bedrock_runtime
      \<and> bedrock_runtime
           (request_body system_prompt (JArr [user_message user_prompt])
              (if maxTokens a \<noteq> 0 then maxTokens a else 50000))
           (model a) = Inl (ClientError response)
      \<and> subscript2 response ''Error'' ''Message'' = Inr (JStr m)"
  then have run: "main_cli w a =
     \<lparr>stdout = [''A client error occured: '' @ m, ''None''],
      logged = [''A client error occurred: '' @ m],
      requests = [(model a, request_body system_prompt (JArr [user_message user_prompt])
                     (if maxTokens a \<noteq> 0 then maxTokens a else 50000))],
      uncaught = None\<rparr>"
    using call_model_client_error
      [of w a bedrock_runtime system_prompt user_prompt
          "if maxTokens a \<noteq> 0 then maxTokens a else 50000" response m]
    by (simp add: main_cli_def)
  show "stdout (main_cli w a) = [''A client error occured: '' @ m, ''None'']"
    and "uncaught (main_cli w a) = None" and "exit_status (main_cli w a) = 0"
    by (simp_all add: run exit_status_def)
next
  assume h: "input_review (disk w) (standard_input w) (args b) = Inr codes
      \<and> boto3_client w (credentials b) = Inr bedrock_runtime'
      \<and> bedrock_runtime'
           (request_body (JStr review_system_prompt)
              (JArr [user_message (JStr (review_user_prompt @ codes))]) 50000)
           (model b) = Inl (ClientError response)
      \<and> subscript2 response ''Error'' ''Message'' = Inr (JStr m)"
  then have run: "main_review w b =
     \<lparr>stdout = [''A client error occured: '' @ m, ''None''],
      logged = [''A client error occurred: '' @ m],
      requests = [(model b, request_body (JStr review_system_prompt)
                     (JArr [user_message (JStr (review_user_prompt @ codes))]) 50000)],
      uncaught = None\<rparr>"
    using call_model_client_error
      [of w b bedrock_runtime' "JStr review_system_prompt"
          "JStr (review_user_prompt @ codes)" 50000 response m]
    by (simp add: main_review_def)
  show "stdout (main_review w b) = [''A client error occured: '' @ m, ''None'']"
    and "uncaught (main_review w b) = None" and "exit_status (main_review w b) = 0"
    by (simp_all add: run exit_status_def)
qed

theorem client_error_is_reported_witness:
  "prepare_cli denied_world flags_args
     = Inr (JStr ''Be terse.'', JStr (''Explain:'' @ [CHR 0x0A] @ ''alphabeta''))
   \<and> input_review (disk denied_world) (standard_input denied_world) (args review_args)
       = Inr ''alphabeta''
   \<and> boto3_client denied_world (credentials flags_args) = Inr denied_bedrock
   \<and> boto3_client denied_world (credentials review_args) = Inr denied_bedrock
   \<and> subscript2 access_denied ''Error'' ''Message'' = Inr (JStr ''Access denied'')
   \<and> stdout (main_cli denied_world flags_args) = [''A client error occured: Access denied'', ''None'']
   \<and> exit_status (main_cli denied_world flags_args) = 0
   \<and> stdout (main_review denied_world review_args)
       = [''A client error occured: Access denied'', ''None'']
   \<and> exit_status (main_review denied_world review_args) = 0"
proof -
  have h1: "prepare_cli denied_world flags_args
     = Inr (JStr ''Be terse.'', JStr (''Explain:'' @ [CHR 0x0A] @ ''alphabeta''))"
    by (simp add: prepare_cli_def flags_args_def resolve_prompts_def)
  have h2: "input_review (disk denied_world) (standard_input denied_world) (args review_args)
       = Inr ''alphabeta''"
    by (simp add: review_args_def)
  have h3: "boto3_client denied_world (credentials flags_args) = Inr denied_bedrock"
    and h4: "boto3_client denied_world (credentials review_args) = Inr denied_bedrock"
    by (simp_all add: denied_client_def)
  have h5: "subscript2 access_denied ''Error'' ''Message'' = Inr (JStr ''Access denied'')"
    by (simp add: access_denied_def subscript2_def)
  have h6: "denied_bedrock bd md = Inl (ClientError access_denied)" for bd md
    by (simp add: denied_bedrock_def)
  note inst = client_error_is_reported
    [of denied_world flags_args "JStr ''Be terse.''"
        "JStr (''Explain:'' @ [CHR 0x0A] @ ''alphabeta'')" denied_bedrock access_denied
        "''Access denied''" review_args "''alphabeta''" denied_bedrock]
  from inst h1 h3 h5 h6 have a:
    "stdout (main_cli denied_world flags_args)
        = [''A client error occured: '' @ ''Access denied'', ''None'']
     \<and> exit_status (main_cli denied_world flags_args) = 0"
    by blast
  from inst h2 h4 h5 h6 have b:
    "stdout (main_review denied_world review_args)
        = [''A client error occured: '' @ ''Access denied'', ''None'']
     \<and> exit_status (main_review denied_world review_args) = 0"
    by blast
  from a b h1 h2 h3 h4 h5 show ?thesis by simp
qed

end
